theory Spec2Isabelle
  imports Complex_Main "HOL-Library.Sublist"
begin

section \<open>Python string helpers used by \<open>atlas_recall.py\<close>\<close>

text \<open>
  Strings are lists of characters, one \<^typ>\<open>char\<close> per code point (the model covers the
  code points below 256; \<open>len\<close> is \<^const>\<open>length\<close>).
\<close>

text \<open>\<open>s.split('\n')\<close>: the pieces between line feeds; never the empty list.\<close>

fun split_nl :: "string \<Rightarrow> string list" where
  "split_nl [] = [[]]"
| "split_nl (c # cs) =
     (if c = CHR 0x0A then [] # split_nl cs
      else (case split_nl cs of [] \<Rightarrow> [[c]] | l # ls \<Rightarrow> (c # l) # ls))"

text \<open>\<open>sep.join(xs)\<close>.\<close>

fun join :: "string \<Rightarrow> string list \<Rightarrow> string" where
  "join sep [] = []"
| "join sep [x] = x"
| "join sep (x # y # ys) = x @ sep @ join sep (y # ys)"

text \<open>\<open>line.startswith('#')\<close>.\<close>

definition startswith_hash :: "string \<Rightarrow> bool" where
  "startswith_hash line = (case line of [] \<Rightarrow> False | c # _ \<Rightarrow> c = CHR ''#'')"

text \<open>\<open>line.lstrip('#')\<close>.\<close>

definition lstrip_hash :: "string \<Rightarrow> string" where
  "lstrip_hash line = dropWhile (\<lambda>c. c = CHR ''#'') line"

text \<open>
  \<open>str.isspace\<close> on the ASCII range: tab, line feed, vertical tab, form feed, carriage
  return, the four separators \<open>0x1C\<close> to \<open>0x1F\<close>, and the space.
\<close>

definition is_space :: "char \<Rightarrow> bool" where
  "is_space c = (c \<in> {CHR 0x09, CHR 0x0A, CHR 0x0B, CHR 0x0C, CHR 0x0D,
                       CHR 0x1C, CHR 0x1D, CHR 0x1E, CHR 0x1F, CHR '' ''})"

text \<open>\<open>s.strip()\<close>.\<close>

definition strip :: "string \<Rightarrow> string" where
  "strip s = rev (dropWhile is_space (rev (dropWhile is_space s)))"

section \<open>\<open>chunk_markdown\<close>\<close>

text \<open>The dictionaries \<open>{'text': .., 'headers': .., 'size': ..}\<close> appended to \<open>chunks\<close>.\<close>

record chunk =
  chunk_text :: string
  chunk_headers :: string
  chunk_sz :: nat

text \<open>The local variables of the loop.\<close>

record cstate =
  chunks :: "chunk list"
  current_chunk :: "string list"
  current_headers :: "string list"
  current_size :: nat

definition init_cstate :: cstate where
  "init_cstate = \<lparr>chunks = [], current_chunk = [], current_headers = [], current_size = 0\<rparr>"

text \<open>\<open>current_chunk[-3:] if len(current_chunk) > 3 else current_chunk\<close>.\<close>

definition overlap_lines :: "string list \<Rightarrow> string list" where
  "overlap_lines cc = (if length cc > 3 then drop (length cc - 3) cc else cc)"

text \<open>
  The flush, written twice in the source (before a heading, lines 74 to 82, and after a
  line, lines 92 to 100) with the same text: append the chunk, keep the overlap, recompute
  the size.
\<close>

definition flush :: "cstate \<Rightarrow> cstate" where
  "flush s =
     s\<lparr>chunks := chunks s @
          [\<lparr>chunk_text = join [CHR 0x0A] (current_chunk s),
            chunk_headers = join '' > '' (current_headers s),
            chunk_sz = current_size s\<rparr>],
       current_chunk := overlap_lines (current_chunk s),
       current_size := sum_list (map length (overlap_lines (current_chunk s)))\<rparr>"

text \<open>\<open>level = len(line) - len(line.lstrip('#'))\<close> and \<open>line.lstrip('#').strip()\<close>.\<close>

definition level :: "string \<Rightarrow> nat" where
  "level line = length line - length (lstrip_hash line)"

definition header_text :: "string \<Rightarrow> string" where
  "header_text line = strip (lstrip_hash line)"

text \<open>\<open>current_headers[:level-1] + [header_text]\<close>; \<open>level\<close> is at least 1 on a heading.\<close>

definition update_headers :: "string list \<Rightarrow> string \<Rightarrow> string list" where
  "update_headers hs line = take (level line - 1) hs @ [header_text line]"

text \<open>The heading branch of the loop body (lines 68 to 85).\<close>

definition on_heading :: "cstate \<Rightarrow> string \<Rightarrow> cstate" where
  "on_heading s line =
     (let s1 = (if current_size s > 200 then flush s else s)
      in s1\<lparr>current_headers := update_headers (current_headers s1) line\<rparr>)"

text \<open>One iteration of \<open>for line in lines\<close> (lines 66 to 100).\<close>

definition step :: "int \<Rightarrow> cstate \<Rightarrow> string \<Rightarrow> cstate" where
  "step chunk_size s line =
     (let s1 = (if startswith_hash line then on_heading s line else s);
          s2 = s1\<lparr>current_chunk := current_chunk s1 @ [line],
                  current_size := current_size s1 + length line\<rparr>
      in if int (current_size s2) \<ge> chunk_size then flush s2 else s2)"

text \<open>The final chunk (lines 103 to 108) and the result.\<close>

definition finish :: "cstate \<Rightarrow> chunk list" where
  "finish s =
     (if current_chunk s \<noteq> []
      then chunks s @
          [\<lparr>chunk_text = join [CHR 0x0A] (current_chunk s),
            chunk_headers = join '' > '' (current_headers s),
            chunk_sz = current_size s\<rparr>]
      else chunks s)"

text \<open>
  \<open>chunk_markdown(content, chunk_size, overlap)\<close>. The parameter \<open>overlap\<close> is in the
  signature and is read nowhere in the body.
\<close>

definition chunk_markdown :: "string \<Rightarrow> int \<Rightarrow> int \<Rightarrow> chunk list" where
  "chunk_markdown content chunk_size overlap =
     finish (foldl (step chunk_size) init_cstate (split_nl content))"

text \<open>The lines of a chunk, read back from its text.\<close>

definition chunk_lines :: "chunk \<Rightarrow> string list" where
  "chunk_lines c = split_nl (chunk_text c)"

section \<open>The library functions and the persisted state\<close>

text \<open>
  The dictionary kept in \<open>index_state.json\<close>: \<open>files\<close> maps \<open>str(path)\<close> to the hex digest of
  the file, \<open>last_full_index\<close> is an ISO-8601 string or \<open>None\<close>.
\<close>

record index_state =
  files :: "string \<rightharpoonup> string"
  last_full_index :: "string option"

text \<open>
  What the module takes from Python's library and from its constants, none of it code of
  the repository: \<open>hashlib.md5(b).hexdigest()\<close>, \<open>json.dumps(state, indent=2)\<close>,
  \<open>json.loads\<close> (which raises on a malformed text: \<open>Inl\<close>), \<open>Path.name\<close>, the document id
  \<open>f"{path.stem}_{i}_{datetime.now().timestamp()}"\<close> as a function of the path, the index
  and the clock, \<open>datetime.isoformat\<close>, and the path \<open>INDEX_STATE\<close>.
\<close>

record pylib =
  md5_hexdigest :: "string \<Rightarrow> string"
  json_dumps :: "index_state \<Rightarrow> string"
  json_loads :: "string \<Rightarrow> string + index_state"
  path_name :: "string \<Rightarrow> string"
  doc_id :: "string \<Rightarrow> nat \<Rightarrow> nat \<Rightarrow> string"
  isoformat :: "nat \<Rightarrow> string"
  INDEX_STATE :: string

section \<open>\<open>AtlasRecall.recall\<close> and \<open>AtlasRecall.recall_unified\<close>\<close>

text \<open>
  Scores and distances are Python floats; the model takes them as real numbers (no NaN, no
  rounding). A dictionary key that the code reads with \<open>d.get(key, default)\<close> is an
  \<^typ>\<open>'a option\<close> field, read with \<open>get_or\<close>; a key read with \<open>d[key]\<close> is a plain field.
\<close>

definition get_or :: "'a option \<Rightarrow> 'a \<Rightarrow> 'a" where
  "get_or v d = (case v of None \<Rightarrow> d | Some x \<Rightarrow> x)"

subsection \<open>What the backends answer\<close>

text \<open>
  One raw result of \<open>self.mem0.search\<close>: a dictionary that may hold \<open>memory\<close>, \<open>text\<close> and
  \<open>score\<close>; \<open>mi_str\<close> is \<open>str(r)\<close>.
\<close>

record mem0_item =
  mi_memory :: "string option"
  mi_text :: "string option"
  mi_score :: "real option"
  mi_str :: string

text \<open>
  The answer of \<open>self.mem0.search\<close>: a dictionary, with or without the key \<open>results\<close>, or
  the list itself.
\<close>

datatype mem0_response = Mem0Dict "mem0_item list option" | Mem0List "mem0_item list"

text \<open>One metadata dictionary of a ChromaDB hit.\<close>

record chroma_meta =
  cm_source_file :: "string option"
  cm_headers :: "string option"

text \<open>
  The answer of \<open>self.chroma.query\<close>: the inner lists \<open>documents[0]\<close>, \<open>metadatas[0]\<close> and,
  when \<open>chroma_results.get("distances")\<close> is truthy, \<open>distances[0]\<close>.
\<close>

record chroma_response =
  cr_documents :: "string list"
  cr_metadatas :: "chroma_meta list"
  cr_distances :: "real list option"

text \<open>
  The answer of the Letta archival request: the status code and, for \<open>resp.json()\<close>, the
  list of items, each a dictionary that may hold \<open>text\<close>.
\<close>

record letta_reply =
  lr_status_code :: nat
  lr_json :: "string option list"

text \<open>
  The three backends, as the calls that \<open>recall\<close> makes. A call that raises is \<open>Inl e\<close>, with
  \<open>e\<close> the text \<open>str(e)\<close> of the exception; a call that returns is \<open>Inr\<close> of its answer.
  The arguments are the query, the user or agent id, and the limit.
\<close>

record backends =
  mem0_search :: "string \<Rightarrow> string \<Rightarrow> int \<Rightarrow> string + mem0_response"
  chroma_query :: "string \<Rightarrow> int \<Rightarrow> string + chroma_response"
  letta_archival :: "string \<Rightarrow> string \<Rightarrow> int \<Rightarrow> string + letta_reply"

text \<open>
  The fields of \<open>self\<close> that \<open>recall\<close> and \<open>index_file\<close> read: \<open>self.letta\<close> (the client, or
  \<open>None\<close> when Letta was not reachable in \<open>__init__\<close>), \<open>self.letta_agent_id\<close> and
  \<open>self.user_id\<close>.
\<close>

record engine =
  letta :: bool
  letta_agent_id :: "string option"
  user_id :: string

text \<open>\<open>self.letta and self.letta_agent_id\<close>: a client, and an agent id that is not empty.\<close>

definition letta_usable :: "engine \<Rightarrow> bool" where
  "letta_usable E =
     (letta E \<and> (case letta_agent_id E of None \<Rightarrow> False | Some a \<Rightarrow> a \<noteq> []))"

subsection \<open>\<open>recall\<close>\<close>

text \<open>The entries of \<open>results["mem0"]\<close>, \<open>results["chroma"]\<close> and \<open>results["letta"]\<close>.\<close>

record mem0_hit =
  mh_text :: string
  mh_score :: "real option"
  mh_source :: string

record chroma_hit =
  ch_text :: string
  ch_file :: "string option"
  ch_headers :: "string option"
  ch_distance :: "real option"
  ch_source :: string

record letta_hit =
  lh_text :: string
  lh_source :: string

text \<open>
  The dictionary that \<open>recall\<close> returns; the three error keys are present only when the
  handler of that backend ran.
\<close>

record recall_result =
  rr_query :: string
  rr_timestamp :: string
  rr_mem0 :: "mem0_hit list"
  rr_chroma :: "chroma_hit list"
  rr_letta :: "letta_hit list"
  rr_mem0_error :: "string option"
  rr_chroma_error :: "string option"
  rr_letta_error :: "string option"

text \<open>
  \<open>mem0_raw.get("results", []) if isinstance(mem0_raw, dict) else mem0_raw\<close> and the
  dictionary built for each raw result (lines 321 to 329).
\<close>

definition mem0_list_of :: "mem0_response \<Rightarrow> mem0_item list" where
  "mem0_list_of raw = (case raw of Mem0Dict res \<Rightarrow> get_or res [] | Mem0List xs \<Rightarrow> xs)"

definition mem0_hit_of :: "mem0_item \<Rightarrow> mem0_hit" where
  "mem0_hit_of r =
     \<lparr>mh_text = get_or (mi_memory r) (get_or (mi_text r) (mi_str r)),
      mh_score = Some (get_or (mi_score r) 0),
      mh_source = ''mem0''\<rparr>"

text \<open>The Mem0 block (lines 318 to 331): the list and the error field it leaves.\<close>

definition recall_mem0 :: "string + mem0_response \<Rightarrow> mem0_hit list \<times> string option" where
  "recall_mem0 answer =
     (case answer of
        Inl e \<Rightarrow> ([], Some e)
      | Inr raw \<Rightarrow> (map mem0_hit_of (mem0_list_of raw), None))"

text \<open>
  The loop over \<open>enumerate(chroma_results["documents"][0])\<close> (lines 340 to 349). Reading
  \<open>metadatas[0][i]\<close> or \<open>distances[0][i]\<close> past the end raises \<open>IndexError\<close>; the entries
  appended before stay in \<open>results["chroma"]\<close>.
\<close>

fun chroma_loop ::
  "nat \<Rightarrow> string list \<Rightarrow> chroma_meta list \<Rightarrow> real list option \<Rightarrow> chroma_hit list
     \<Rightarrow> chroma_hit list \<times> string option" where
  "chroma_loop i [] metas dists acc = (acc, None)"
| "chroma_loop i (doc # docs) metas dists acc =
     (if i \<ge> length metas then (acc, Some ''list index out of range'')
      else if (case dists of None \<Rightarrow> False | Some ds \<Rightarrow> i \<ge> length ds)
      then (acc, Some ''list index out of range'')
      else chroma_loop (Suc i) docs metas dists
             (acc @ [\<lparr>ch_text = doc,
                      ch_file = Some (get_or (cm_source_file (metas ! i)) ''unknown''),
                      ch_headers = Some (get_or (cm_headers (metas ! i)) ''''),
                      ch_distance = Some (case dists of None \<Rightarrow> 0 | Some ds \<Rightarrow> ds ! i),
                      ch_source = ''chroma''\<rparr>]))"

text \<open>The ChromaDB block (lines 334 to 351).\<close>

definition recall_chroma :: "string + chroma_response \<Rightarrow> chroma_hit list \<times> string option" where
  "recall_chroma answer =
     (case answer of
        Inl e \<Rightarrow> ([], Some e)
      | Inr res \<Rightarrow> chroma_loop 0 (cr_documents res) (cr_metadatas res) (cr_distances res) [])"

text \<open>The Letta block (lines 354 to 367), entered only with a client and an agent id.\<close>

definition recall_letta :: "string + letta_reply \<Rightarrow> letta_hit list \<times> string option" where
  "recall_letta answer =
     (case answer of
        Inl e \<Rightarrow> ([], Some e)
      | Inr resp \<Rightarrow>
          (if lr_status_code resp = 200
           then (map (\<lambda>item. \<lparr>lh_text = get_or item '''', lh_source = ''letta''\<rparr>) (lr_json resp),
                 None)
           else ([], None)))"

text \<open>
  \<open>recall(query, limit)\<close>; \<open>now\<close> is \<open>datetime.now().isoformat()\<close>. Every call that can
  raise stands inside one of the three \<open>try\<close> blocks, whose handlers store \<open>str(e)\<close>, so no
  exception leaves \<open>recall\<close> and the model returns the dictionary itself.
\<close>

definition recall :: "backends \<Rightarrow> engine \<Rightarrow> string \<Rightarrow> string \<Rightarrow> int \<Rightarrow> recall_result" where
  "recall B E now query limit =
     (let m = recall_mem0 (mem0_search B query (user_id E) limit);
          c = recall_chroma (chroma_query B query limit);
          l = (case letta_agent_id E of
                 None \<Rightarrow> ([], None)
               | Some a \<Rightarrow>
                   (if letta E \<and> a \<noteq> []
                    then recall_letta (letta_archival B a query limit)
                    else ([], None)))
      in \<lparr>rr_query = query, rr_timestamp = now,
          rr_mem0 = fst m, rr_chroma = fst c, rr_letta = fst l,
          rr_mem0_error = snd m, rr_chroma_error = snd c, rr_letta_error = snd l\<rparr>)"

subsection \<open>\<open>recall_unified\<close>\<close>

text \<open>The entries of \<open>all_results\<close>; only the ChromaDB entries have the key \<open>headers\<close>.\<close>

record unified =
  u_text :: string
  u_source :: string
  u_headers :: "string option"
  u_score :: real

text \<open>The three normalising loops (lines 380 to 402).\<close>

definition norm_mem0 :: "mem0_hit \<Rightarrow> unified" where
  "norm_mem0 item =
     \<lparr>u_text = mh_text item, u_source = ''mem0'', u_headers = None,
      u_score = get_or (mh_score item) 0.5\<rparr>"

definition norm_chroma :: "pylib \<Rightarrow> chroma_hit \<Rightarrow> unified" where
  "norm_chroma L item =
     \<lparr>u_text = take 500 (ch_text item),
      u_source = ''chroma:'' @ path_name L (get_or (ch_file item) ''''),
      u_headers = Some (get_or (ch_headers item) ''''),
      u_score = 1 - min (get_or (ch_distance item) 0.5) 1\<rparr>"

definition norm_letta :: "letta_hit \<Rightarrow> unified" where
  "norm_letta item =
     \<lparr>u_text = take 500 (lh_text item), u_source = ''letta'', u_headers = None,
      u_score = 0.7\<rparr>"

definition all_results :: "pylib \<Rightarrow> recall_result \<Rightarrow> unified list" where
  "all_results L raw =
     map norm_mem0 (rr_mem0 raw) @ map (norm_chroma L) (rr_chroma raw)
       @ map norm_letta (rr_letta raw)"

text \<open>
  \<open>sorted(all_results, key=lambda x: x.get("score", 0), reverse=True)\<close>: every entry has
  the key; Python's sort is stable, also with \<open>reverse=True\<close>, and so is \<^const>\<open>sort_key\<close>.
\<close>

definition sort_by_score :: "unified list \<Rightarrow> unified list" where
  "sort_by_score xs = sort_key (\<lambda>x. - u_score x) xs"

text \<open>
  The deduplicating loop (lines 405 to 411); \<open>md5_hex t\<close> stands for
  \<open>hashlib.md5(t.encode()).hexdigest()\<close>.
\<close>

fun dedupe :: "(string \<Rightarrow> string) \<Rightarrow> string set \<Rightarrow> unified list \<Rightarrow> unified list" where
  "dedupe md5_hex seen [] = []"
| "dedupe md5_hex seen (item # items) =
     (let text_hash = md5_hex (take 100 (u_text item))
      in if text_hash \<notin> seen
         then item # dedupe md5_hex (insert text_hash seen) items
         else dedupe md5_hex seen items)"

text \<open>\<open>xs[:n]\<close> for an integer \<open>n\<close>: a negative \<open>n\<close> drops the last \<open>-n\<close> elements.\<close>

definition py_slice_to :: "int \<Rightarrow> 'a list \<Rightarrow> 'a list" where
  "py_slice_to n xs =
     (if n \<ge> 0 then take (nat n) xs else take (length xs - nat (- n)) xs)"

text \<open>The merge, from the dictionary of \<open>recall\<close> on (lines 377 to 413).\<close>

definition merge_rank :: "pylib \<Rightarrow> recall_result \<Rightarrow> int \<Rightarrow> unified list" where
  "merge_rank L raw limit =
     py_slice_to limit (dedupe (md5_hexdigest L) {} (sort_by_score (all_results L raw)))"

text \<open>\<open>recall_unified(query, limit)\<close>.\<close>

definition recall_unified ::
  "pylib \<Rightarrow> backends \<Rightarrow> engine \<Rightarrow> string \<Rightarrow> string \<Rightarrow> int \<Rightarrow> unified list" where
  "recall_unified L B E now query limit =
     merge_rank L (recall B E now query (limit * 2)) limit"

section \<open>The index state and \<open>AtlasRecall.index_file\<close>\<close>

text \<open>One document of the ChromaDB collection \<open>atlas_memory\<close>, with its metadata.\<close>

record chroma_doc =
  cd_id :: string
  cd_document :: string
  cd_source_file :: string
  cd_headers :: string
  cd_chunk_index :: nat
  cd_indexed_at :: string

text \<open>
  Everything \<open>index_file\<close> reads and writes: the files on disk (path to content; the model
  reads bytes and text as the same string), the documents of the collection, the passages
  posted to Letta's archival memory, and the clock that \<open>datetime.now()\<close> reads. The
  stores are taken as reliable: \<open>get\<close>, \<open>delete\<close>, \<open>add\<close> and \<open>write_text\<close> do not raise.
\<close>

record world =
  fs :: "string \<rightharpoonup> string"
  chroma_docs :: "chroma_doc list"
  letta_archive :: "string list"
  clock :: nat

text \<open>\<open>load_index_state()\<close> (lines 118 to 122) and \<open>save_index_state(state)\<close> (lines 125 to 127).\<close>

definition load_index_state :: "pylib \<Rightarrow> world \<Rightarrow> string + index_state" where
  "load_index_state L w =
     (case fs w (INDEX_STATE L) of
        Some t \<Rightarrow> json_loads L t
      | None \<Rightarrow> Inr \<lparr>files = Map.empty, last_full_index = None\<rparr>)"

definition save_index_state :: "pylib \<Rightarrow> index_state \<Rightarrow> world \<Rightarrow> world" where
  "save_index_state L state w = w\<lparr>fs := (fs w)(INDEX_STATE L \<mapsto> json_dumps L state)\<rparr>"

text \<open>
  Lines 228 to 233: the ids of the documents stored for the file, and their deletion when
  there are any.
\<close>

definition delete_old_chunks :: "string \<Rightarrow> world \<Rightarrow> world" where
  "delete_old_chunks path w =
     (let ids = map cd_id (filter (\<lambda>d. cd_source_file d = path) (chroma_docs w))
      in if ids \<noteq> []
         then w\<lparr>chroma_docs := filter (\<lambda>d. cd_id d \<notin> set ids) (chroma_docs w)\<rparr>
         else w)"

text \<open>
  Lines 236 to 247: one \<open>self.chroma.add\<close> per chunk; each reads the clock twice, for the id
  and for \<open>indexed_at\<close>.
\<close>

fun add_chunks :: "pylib \<Rightarrow> string \<Rightarrow> nat \<Rightarrow> chunk list \<Rightarrow> world \<Rightarrow> world" where
  "add_chunks L path i [] w = w"
| "add_chunks L path i (c # cs) w =
     add_chunks L path (Suc i) cs
       (w\<lparr>chroma_docs := chroma_docs w @
            [\<lparr>cd_id = doc_id L path i (clock w),
              cd_document = chunk_text c,
              cd_source_file = path,
              cd_headers = chunk_headers c,
              cd_chunk_index = i,
              cd_indexed_at = isoformat L (Suc (clock w))\<rparr>],
          clock := Suc (Suc (clock w))\<rparr>)"

text \<open>Lines 250 to 259: the summary posted to Letta when it is available.\<close>

definition post_summary :: "pylib \<Rightarrow> engine \<Rightarrow> string \<Rightarrow> string \<Rightarrow> world \<Rightarrow> world" where
  "post_summary L E path content w =
     (if letta_usable E
      then w\<lparr>letta_archive := letta_archive w @
                [''File: '' @ path_name L path @ [CHR 0x0A, CHR 0x0A] @ take 2000 content]\<rparr>
      else w)"

text \<open>
  \<open>index_file(path, force)\<close> (lines 211 to 265): the number of chunks written, or the
  exception that \<open>load_index_state\<close> raised, and the world afterwards.
\<close>

definition index_file ::
  "pylib \<Rightarrow> engine \<Rightarrow> world \<Rightarrow> string \<Rightarrow> bool \<Rightarrow> (string + nat) \<times> world" where
  "index_file L E w path force =
     (case fs w path of
        None \<Rightarrow> (Inr 0, w)
      | Some content \<Rightarrow>
          (case load_index_state L w of
             Inl e \<Rightarrow> (Inl e, w)
           | Inr state \<Rightarrow>
               (let file_hash = md5_hexdigest L content;
                    file_key = path
                in if \<not> force \<and> files state file_key = Some file_hash
                   then (Inr 0, w)
                   else
                     (let chunks = chunk_markdown content 1000 100;
                          w1 = delete_old_chunks path w;
                          w2 = add_chunks L path 0 chunks w1;
                          w3 = post_summary L E path content w2;
                          state' = state\<lparr>files := (files state)(file_key \<mapsto> file_hash)\<rparr>
                      in (Inr (length chunks), save_index_state L state' w3)))))"

section \<open>Auxiliary notions for the properties of \<open>chunk_markdown\<close>\<close>

text \<open>
  The header stack after a sequence of lines: every heading line applies the source's
  update \<open>current_headers[:level-1] + [header_text]\<close>, every other line leaves the stack
  as it is.
\<close>

definition header_stack :: "string list \<Rightarrow> string list" where
  "header_stack ls =
     foldl (\<lambda>hs l. if startswith_hash l then update_headers hs l else hs) [] ls"

text \<open>
  A chunk \<open>c\<close> of a document with lines \<open>ls\<close> carries the headers as of its last line:
  for some \<open>n\<close> the lines of \<open>c\<close> are the trailing lines of the first \<open>n\<close> lines of the
  document, and the header string of \<open>c\<close> is the header stack after these \<open>n\<close> lines.
\<close>

definition headers_as_of_last_line :: "string list \<Rightarrow> chunk \<Rightarrow> bool" where
  "headers_as_of_last_line ls c \<longleftrightarrow>
     (\<exists>n\<in>{1..length ls}.
        chunk_headers c = join '' > '' (header_stack (take n ls)) \<and>
        suffix (chunk_lines c) (take n ls) \<and> chunk_lines c \<noteq> [])"

text \<open>The next chunk starts with the lines kept from the previous one.\<close>

definition overlaps :: "chunk \<Rightarrow> chunk \<Rightarrow> bool" where
  "overlaps p n \<longleftrightarrow> prefix (overlap_lines (chunk_lines p)) (chunk_lines n)"

text \<open>
  The specification's wording of the overlap: two consecutive chunks with lines \<open>p\<close> and
  \<open>n\<close> share at least \<open>m\<close> trailing/leading lines when, for some \<open>j \<ge> m\<close>, the last \<open>j\<close>
  lines of \<open>p\<close> are the first \<open>j\<close> lines of \<open>n\<close>.
\<close>

definition spec_shares_at_least :: "nat \<Rightarrow> string list \<Rightarrow> string list \<Rightarrow> bool" where
  "spec_shares_at_least m p n \<longleftrightarrow>
     (\<exists>j\<in>{m..min (length p) (length n)}. drop (length p - j) p = take j n)"




text \<open>
  The loop invariant of \<open>chunk_markdown\<close>, after the lines \<open>ls\<close>: no line holds a line
  feed; the buffer is a non-empty trailing part of \<open>ls\<close> and \<open>current_size\<close> is its size;
  every chunk emitted so far carries the headers as of its last line; every line read is
  in a chunk or in the buffer; consecutive chunks overlap, and the buffer starts with the
  lines kept from the last chunk.
\<close>

definition buf_inv :: "string list \<Rightarrow> cstate \<Rightarrow> bool" where
  "buf_inv ls s \<longleftrightarrow>
     (\<forall>l\<in>set ls. CHR 0x0A \<notin> set l) \<and>
     suffix (current_chunk s) ls \<and>
     (ls \<noteq> [] \<longrightarrow> current_chunk s \<noteq> []) \<and>
     current_size s = sum_list (map length (current_chunk s)) \<and>
     (\<forall>c\<in>set (chunks s). headers_as_of_last_line ls c) \<and>
     set ls \<subseteq> (\<Union>c\<in>set (chunks s). set (chunk_lines c)) \<union> set (current_chunk s) \<and>
     successively overlaps (chunks s) \<and>
     (chunks s \<noteq> [] \<longrightarrow>
        prefix (overlap_lines (chunk_lines (last (chunks s)))) (current_chunk s))"

section \<open>Auxiliary notions for the properties of \<open>recall_unified\<close>\<close>


section \<open>Example values\<close>

text \<open>
  A library, a state, a world, two engines and three sets of backends on which the theorems
  below are instantiated. In \<open>example_lib\<close> the digest marks its argument, and the JSON
  functions know one text, the one that stands for \<open>example_state\<close>.
\<close>

definition example_state :: index_state where
  "example_state =
     \<lparr>files = [''/home/atlas/clawd/MEMORY.md'' \<mapsto> ''md5:# Notes''],
      last_full_index = None\<rparr>"

definition example_lib :: pylib where
  "example_lib =
     \<lparr>md5_hexdigest = (\<lambda>t. ''md5:'' @ t),
      json_dumps = (\<lambda>s. ''<index state>''),
      json_loads = (\<lambda>t. if t = ''<index state>'' then Inr example_state
                          else Inl ''JSONDecodeError''),
      path_name = (\<lambda>p. p),
      doc_id = (\<lambda>p i t. p),
      isoformat = (\<lambda>t. ''2026-01-01T00:00:00''),
      INDEX_STATE = ''/home/atlas/.atlas/index_state.json''\<rparr>"

definition example_world :: world where
  "example_world =
     \<lparr>fs = [''/home/atlas/clawd/MEMORY.md'' \<mapsto> ''# Notes'',
             ''/home/atlas/.atlas/index_state.json'' \<mapsto> ''<index state>''],
      chroma_docs =
        [\<lparr>cd_id = ''MEMORY_0_1.5'', cd_document = ''# Notes'',
          cd_source_file = ''/home/atlas/clawd/MEMORY.md'', cd_headers = ''Notes'',
          cd_chunk_index = 0, cd_indexed_at = ''2026-01-01T00:00:00''\<rparr>],
      letta_archive = [],
      clock = 7\<rparr>"

definition example_engine :: engine where
  "example_engine = \<lparr>letta = False, letta_agent_id = None, user_id = ''atlas''\<rparr>"



definition no_score_backends :: backends where
  "no_score_backends =
     \<lparr>mem0_search = (\<lambda>q u n. Inr (Mem0Dict (Some
        [\<lparr>mi_memory = Some ''Jack likes owls'', mi_text = None, mi_score = None,
           mi_str = ''{}''\<rparr>]))),
      chroma_query = (\<lambda>q n. Inr \<lparr>cr_documents = [], cr_metadatas = [], cr_distances = None\<rparr>),
      letta_archival = (\<lambda>a q n. Inr \<lparr>lr_status_code = 200, lr_json = []\<rparr>)\<rparr>"


section \<open>Lemmas on splitting and joining lines\<close>

lemma split_nl_not_Nil: "split_nl s \<noteq> []"
  by (induction s) (auto split: list.splits)

lemma split_nl_no_nl: "l \<in> set (split_nl s) \<Longrightarrow> CHR 0x0A \<notin> set l"
  by (induction s arbitrary: l) (auto split: list.splits if_splits)

lemma split_nl_app: "CHR 0x0A \<notin> set l \<Longrightarrow> split_nl (l @ CHR 0x0A # r) = l # split_nl r"
  by (induction l) auto

lemma split_nl_one: "CHR 0x0A \<notin> set l \<Longrightarrow> split_nl l = [l]"
  by (induction l) auto

lemma split_join:
  "ls \<noteq> [] \<Longrightarrow> \<forall>l\<in>set ls. CHR 0x0A \<notin> set l \<Longrightarrow> split_nl (join [CHR 0x0A] ls) = ls"
  by (induction "[CHR 0x0A]" ls rule: join.induct) (auto simp: split_nl_one split_nl_app)

section \<open>The loop invariant of \<open>chunk_markdown\<close>\<close>

lemma overlap_lines_suffix: "suffix (overlap_lines cc) cc"
  by (simp add: overlap_lines_def suffix_drop)

lemma overlap_lines_Nil: "overlap_lines cc = [] \<longleftrightarrow> cc = []"
  by (auto simp: overlap_lines_def)

lemma headers_as_of_last_line_snoc:
  assumes "headers_as_of_last_line ls c"
  shows "headers_as_of_last_line (ls @ [l]) c"
proof -
  from assms obtain n where n: "1 \<le> n" "n \<le> length ls"
      "chunk_headers c = join '' > '' (header_stack (take n ls))"
      "suffix (chunk_lines c) (take n ls)" "chunk_lines c \<noteq> []"
    unfolding headers_as_of_last_line_def by auto
  then show ?thesis
    unfolding headers_as_of_last_line_def by (intro bexI[where x=n]) auto
qed

lemma new_chunk_lines:
  assumes "\<forall>l\<in>set ls. CHR 0x0A \<notin> set l" "suffix cc ls" "cc \<noteq> []"
  shows "chunk_lines \<lparr>chunk_text = join [CHR 0x0A] cc, chunk_headers = h, chunk_sz = n\<rparr> = cc"
proof -
  from assms(1,2) have "\<forall>l\<in>set cc. CHR 0x0A \<notin> set l"
    by (meson set_mono_suffix subsetD)
  with assms(3) show ?thesis by (simp add: chunk_lines_def split_join)
qed

lemma flush_inv:
  assumes inv: "buf_inv ls s" and hs: "current_headers s = header_stack ls"
      and ne: "current_chunk s \<noteq> []"
  shows "buf_inv ls (flush s)" and "current_headers (flush s) = current_headers s"
proof -
  let ?c = "\<lparr>chunk_text = join [CHR 0x0A] (current_chunk s),
            chunk_headers = join '' > '' (current_headers s), chunk_sz = current_size s\<rparr>"
  from inv have nl: "\<forall>l\<in>set ls. CHR 0x0A \<notin> set l" and suf: "suffix (current_chunk s) ls"
    by (simp_all add: buf_inv_def)
  have cl: "chunk_lines ?c = current_chunk s" using new_chunk_lines[OF nl suf ne] .
  from ne suf have "ls \<noteq> []" by auto
  then have len: "1 \<le> length ls" by (simp add: Suc_leI)
  have ch: "chunks (flush s) = chunks s @ [?c]" by (simp add: flush_def)
  have cc: "current_chunk (flush s) = overlap_lines (current_chunk s)" by (simp add: flush_def)
  have 1: "suffix (current_chunk (flush s)) ls"
    using suf overlap_lines_suffix cc by (metis suffix_order.order_trans)
  have 2: "current_chunk (flush s) \<noteq> []" using ne cc by (simp add: overlap_lines_Nil)
  have 3: "current_size (flush s) = sum_list (map length (current_chunk (flush s)))"
    by (simp add: flush_def)
  have "headers_as_of_last_line ls ?c"
    unfolding headers_as_of_last_line_def using len hs suf ne cl
    by (intro bexI[where x="length ls"]) auto
  then have 4: "\<forall>c\<in>set (chunks (flush s)). headers_as_of_last_line ls c"
    using inv by (auto simp: ch buf_inv_def)
  have 5: "set ls \<subseteq> (\<Union>c\<in>set (chunks (flush s)). set (chunk_lines c))
             \<union> set (current_chunk (flush s))"
    using inv cl unfolding ch buf_inv_def by auto
  have 6: "successively overlaps (chunks (flush s))"
    using inv cl unfolding ch buf_inv_def
    by (auto simp: successively_append_iff overlaps_def)
  have 7: "prefix (overlap_lines (chunk_lines (last (chunks (flush s)))))
             (current_chunk (flush s))"
    by (simp add: ch cc cl)
  show "buf_inv ls (flush s)"
    unfolding buf_inv_def using nl 1 2 3 4 5 6 7 by blast
  show "current_headers (flush s) = current_headers s" by (simp add: flush_def)
qed

lemma append_inv:
  assumes inv: "buf_inv ls s" and nl: "CHR 0x0A \<notin> set line"
  shows "buf_inv (ls @ [line])
           (s\<lparr>current_headers := h, current_chunk := current_chunk s @ [line],
              current_size := current_size s + length line\<rparr>)"
  using assms unfolding buf_inv_def
  by (auto simp: headers_as_of_last_line_snoc)

lemma header_stack_snoc:
  "header_stack (ls @ [l]) =
     (if startswith_hash l then update_headers (header_stack ls) l else header_stack ls)"
  by (simp add: header_stack_def)

lemma step_inv:
  assumes inv: "buf_inv ls s" and hs: "current_headers s = header_stack ls"
      and nl: "CHR 0x0A \<notin> set line"
  shows "buf_inv (ls @ [line]) (step cs s line) \<and>
         current_headers (step cs s line) = header_stack (ls @ [line])"
proof -
  define s0 where "s0 = (if startswith_hash line \<and> current_size s > 200 then flush s else s)"
  have ne: "current_size s > 200 \<Longrightarrow> current_chunk s \<noteq> []"
    using inv by (auto simp: buf_inv_def)
  have s0: "buf_inv ls s0" "current_headers s0 = header_stack ls"
    using flush_inv[OF inv hs] inv hs ne by (auto simp: s0_def)
  define h where "h = (if startswith_hash line then update_headers (current_headers s0) line
                       else current_headers s0)"
  define s2 where "s2 = s0\<lparr>current_headers := h, current_chunk := current_chunk s0 @ [line],
              current_size := current_size s0 + length line\<rparr>"
  have s2: "buf_inv (ls @ [line]) s2" unfolding s2_def by (rule append_inv[OF s0(1) nl])
  have h2: "current_headers s2 = header_stack (ls @ [line])"
    by (simp add: s2_def h_def header_stack_snoc s0(2))
  have ne2: "current_chunk s2 \<noteq> []" by (simp add: s2_def)
  have st: "step cs s line = (if int (current_size s2) \<ge> cs then flush s2 else s2)"
    by (simp add: step_def on_heading_def s2_def h_def s0_def Let_def)
  show ?thesis
    using flush_inv[OF s2 h2 ne2] s2 h2 by (simp add: st)
qed

lemma init_inv: "buf_inv [] init_cstate" "current_headers init_cstate = header_stack []"
  by (simp_all add: buf_inv_def init_cstate_def header_stack_def)

lemma loop_inv:
  assumes "\<forall>l\<in>set ls. CHR 0x0A \<notin> set l"
  shows "buf_inv ls (foldl (step cs) init_cstate ls) \<and>
         current_headers (foldl (step cs) init_cstate ls) = header_stack ls"
  using assms
proof (induction ls rule: rev_induct)
  case Nil
  show ?case using init_inv by simp
next
  case (snoc l ls)
  then show ?case using step_inv[of ls _ l cs] by simp
qed

lemma finish_props:
  assumes inv: "buf_inv ls s" and hs: "current_headers s = header_stack ls" and ne: "ls \<noteq> []"
  shows "\<forall>c\<in>set (finish s). headers_as_of_last_line ls c"
    and "successively overlaps (finish s)"
    and "set ls \<subseteq> (\<Union>c\<in>set (finish s). set (chunk_lines c))"
proof -
  let ?c = "\<lparr>chunk_text = join [CHR 0x0A] (current_chunk s),
            chunk_headers = join '' > '' (current_headers s), chunk_sz = current_size s\<rparr>"
  from inv ne have cc: "current_chunk s \<noteq> []" by (simp add: buf_inv_def)
  then have fin: "finish s = chunks (flush s)" and ch: "chunks (flush s) = chunks s @ [?c]"
    by (simp_all add: finish_def flush_def)
  from inv have nl: "\<forall>l\<in>set ls. CHR 0x0A \<notin> set l" and suf: "suffix (current_chunk s) ls"
    by (simp_all add: buf_inv_def)
  have cl: "chunk_lines ?c = current_chunk s" using new_chunk_lines[OF nl suf cc] .
  have "buf_inv ls (flush s)" using flush_inv(1)[OF inv hs cc] .
  then show "\<forall>c\<in>set (finish s). headers_as_of_last_line ls c" "successively overlaps (finish s)"
    by (simp_all add: fin buf_inv_def)
  from inv have "set ls \<subseteq> (\<Union>c\<in>set (chunks s). set (chunk_lines c)) \<union> set (current_chunk s)"
    by (simp add: buf_inv_def)
  then show "set ls \<subseteq> (\<Union>c\<in>set (finish s). set (chunk_lines c))"
    unfolding fin ch using cl by auto
qed

lemma chunk_markdown_props:
  shows "\<forall>c\<in>set (chunk_markdown content chunk_size k).
           headers_as_of_last_line (split_nl content) c"
    and "successively overlaps (chunk_markdown content chunk_size k)"
    and "set (split_nl content)
           \<subseteq> (\<Union>c\<in>set (chunk_markdown content chunk_size k). set (chunk_lines c))"
proof -
  let ?ls = "split_nl content"
  let ?s = "foldl (step chunk_size) init_cstate ?ls"
  have nl: "\<forall>l\<in>set ?ls. CHR 0x0A \<notin> set l" using split_nl_no_nl by blast
  from loop_inv[OF nl, of chunk_size]
  have *: "buf_inv ?ls ?s" "current_headers ?s = header_stack ?ls" by simp_all
  show "\<forall>c\<in>set (chunk_markdown content chunk_size k).
           headers_as_of_last_line (split_nl content) c"
    and "successively overlaps (chunk_markdown content chunk_size k)"
    and "set (split_nl content)
           \<subseteq> (\<Union>c\<in>set (chunk_markdown content chunk_size k). set (chunk_lines c))"
    unfolding chunk_markdown_def using finish_props[OF * split_nl_not_Nil] by blast+
qed

section \<open>Properties of \<open>chunk_markdown\<close>\<close>

text \<open>
  Claim C9. The result of \<open>chunk_markdown\<close> does not depend on its \<open>overlap\<close> argument:
  two calls that differ only there return the same list of chunks.
\<close>

theorem chunk_markdown_overlap_irrelevant:
  "chunk_markdown content chunk_size k1 = chunk_markdown content chunk_size k2"
  by (simp add: chunk_markdown_def)

text \<open>
  Claim C8. Every line of the document, blank or not, is a line of the text of at least one
  of the chunks that \<open>chunk_markdown\<close> returns.
\<close>

theorem chunk_markdown_covers_lines:
  assumes "l \<in> set (split_nl content)"
  shows "\<exists>c\<in>set (chunk_markdown content chunk_size k). l \<in> set (chunk_lines c)"
  using assms chunk_markdown_props(3)[of content chunk_size k] by auto

theorem chunk_markdown_covers_lines_witness:
  "''line2'' \<in> set (split_nl ''# T\<newline>\<newline>line1\<newline>line2'') \<and>
   (\<exists>c\<in>set (chunk_markdown ''# T\<newline>\<newline>line1\<newline>line2'' 1000 100).
      ''line2'' \<in> set (chunk_lines c))"
proof -
  have h: "''line2'' \<in> set (split_nl ''# T\<newline>\<newline>line1\<newline>line2'')"
    by code_simp
  from chunk_markdown_covers_lines[OF h, of 1000 100] h show ?thesis by blast
qed

text \<open>
  Claim C1, as stated, at \<open>k = 4\<close>: the document of the five lines \<open>a\<close> to \<open>e\<close>, split with
  \<open>chunk_size = 4\<close>, gives the chunks \<open>a b c d\<close>, \<open>b c d e\<close> and \<open>c d e\<close>. The first chunk
  has four lines, so the claim asks for \<open>min 4 4 = 4\<close> shared lines between the first two
  chunks; they share three.
\<close>

theorem chunk_markdown_overlap_k_counterexample:
  "\<not> spec_shares_at_least
       (min 4 (length (chunk_lines (chunk_markdown ''a\<newline>b\<newline>c\<newline>d\<newline>e'' 4 4 ! 0))))
       (chunk_lines (chunk_markdown ''a\<newline>b\<newline>c\<newline>d\<newline>e'' 4 4 ! 0))
       (chunk_lines (chunk_markdown ''a\<newline>b\<newline>c\<newline>d\<newline>e'' 4 4 ! 1))"
proof -
  have p: "chunk_lines (chunk_markdown ''a\<newline>b\<newline>c\<newline>d\<newline>e'' 4 4 ! 0)
             = [''a'', ''b'', ''c'', ''d'']"
    by code_simp
  have n: "chunk_lines (chunk_markdown ''a\<newline>b\<newline>c\<newline>d\<newline>e'' 4 4 ! 1)
             = [''b'', ''c'', ''d'', ''e'']"
    by code_simp
  show ?thesis unfolding p n by (simp add: spec_shares_at_least_def)
qed

text \<open>
  Claim C1, amended. Whatever the overlap parameter \<open>k\<close> is, each chunk after the first
  starts with the last \<open>min 3 (length p)\<close> lines of its predecessor, where \<open>p\<close> are the
  predecessor's lines: on every flush the buffer is reset to its last three lines.
\<close>

theorem chunk_markdown_overlap_three:
  assumes "Suc i < length (chunk_markdown content chunk_size k)"
  shows "let p = chunk_lines (chunk_markdown content chunk_size k ! i);
             n = chunk_lines (chunk_markdown content chunk_size k ! Suc i);
             m = min 3 (length p)
         in drop (length p - m) p = take m n \<and> m \<le> length n \<and> spec_shares_at_least m p n"
proof -
  let ?cs = "chunk_markdown content chunk_size k"
  let ?p = "chunk_lines (?cs ! i)" and ?n = "chunk_lines (?cs ! Suc i)"
  let ?m = "min 3 (length ?p)"
  have "overlaps (?cs ! i) (?cs ! Suc i)"
    using successively_nth[OF chunk_markdown_props(2) assms] .
  then have pre: "prefix (overlap_lines ?p) ?n" by (simp add: overlaps_def)
  have ov: "overlap_lines ?p = drop (length ?p - ?m) ?p"
    by (simp add: overlap_lines_def min_def)
  have len: "length (overlap_lines ?p) = ?m" by (simp add: overlap_lines_def min_def)
  from pre obtain r where r: "?n = overlap_lines ?p @ r" by (auto simp: prefix_def)
  have 1: "drop (length ?p - ?m) ?p = take ?m ?n"
    using len ov by (subst r) simp
  have 2: "?m \<le> length ?n" using len by (subst r) simp
  have 3: "spec_shares_at_least ?m ?p ?n"
    unfolding spec_shares_at_least_def using 1 2 by (intro bexI[where x="?m"]) auto
  show ?thesis using 1 2 3 by (simp add: Let_def)
qed

theorem chunk_markdown_overlap_three_witness:
  "Suc 0 < length (chunk_markdown ''a\<newline>b\<newline>c\<newline>d\<newline>e'' 4 100) \<and>
   (let p = chunk_lines (chunk_markdown ''a\<newline>b\<newline>c\<newline>d\<newline>e'' 4 100 ! 0);
        n = chunk_lines (chunk_markdown ''a\<newline>b\<newline>c\<newline>d\<newline>e'' 4 100 ! Suc 0);
        m = min 3 (length p)
    in drop (length p - m) p = take m n \<and> m \<le> length n \<and> spec_shares_at_least m p n)"
proof -
  have h: "Suc 0 < length (chunk_markdown ''a\<newline>b\<newline>c\<newline>d\<newline>e'' 4 100)"
    by code_simp
  from chunk_markdown_overlap_three[OF h] h show ?thesis by blast
qed




text \<open>
  Claim C7, on the empty document: \<open>''.split('\n')\<close> is the one empty line, the buffer
  that holds it is a non-empty list, and the final chunk is emitted with empty text.
\<close>

theorem chunk_markdown_empty_document:
  "chunk_markdown '''' 1000 100 = [\<lparr>chunk_text = '''', chunk_headers = '''', chunk_sz = 0\<rparr>]"
  by code_simp

section \<open>Lemmas on sorting, deduplicating and slicing\<close>












section \<open>The example backends, evaluated\<close>




section \<open>Properties of \<open>recall\<close> and \<open>recall_unified\<close>\<close>



text \<open>
  Claim C2, on a Mem0 result that reports no score: \<open>recall\<close> stores \<open>r.get("score", 0)\<close>,
  so the key \<open>score\<close> is always there when \<open>recall_unified\<close> reads
  \<open>item.get("score", 0.5)\<close>, and the normalized score is 0, not 0.5.
\<close>

theorem recall_unified_mem0_without_score:
  "recall_unified example_lib no_score_backends example_engine ''t0'' ''owls'' 5 =
     [\<lparr>u_text = ''Jack likes owls'', u_source = ''mem0'', u_headers = None, u_score = 0\<rparr>]"
  by (simp add: recall_unified_def recall_def no_score_backends_def example_engine_def
      recall_mem0_def recall_chroma_def mem0_list_of_def mem0_hit_of_def get_or_def
      merge_rank_def all_results_def norm_mem0_def sort_by_score_def example_lib_def
      py_slice_to_def)




section \<open>Properties of the index state and of \<open>index_file\<close>\<close>

text \<open>
  Claim C5. When the file exists, the index state loads, and the digest stored for the file
  is the digest of its current content, \<open>index_file\<close> without \<open>force\<close> returns 0 and leaves
  the world as it was: the files on disk with the persisted state, the documents of the
  vector store, the Letta archive and the clock. Calling it again returns 0 again.
\<close>

theorem index_file_unchanged_is_noop:
  assumes "fs w path = Some content"
      and "load_index_state L w = Inr state"
      and "files state path = Some (md5_hexdigest L content)"
  shows "index_file L E w path False = (Inr 0, w) \<and>
         index_file L E (snd (index_file L E w path False)) path False = (Inr 0, w)"
  using assms by (simp add: index_file_def)

theorem index_file_unchanged_is_noop_witness:
  "fs example_world ''/home/atlas/clawd/MEMORY.md'' = Some ''# Notes'' \<and>
   load_index_state example_lib example_world = Inr example_state \<and>
   files example_state ''/home/atlas/clawd/MEMORY.md''
     = Some (md5_hexdigest example_lib ''# Notes'') \<and>
   index_file example_lib example_engine example_world ''/home/atlas/clawd/MEMORY.md'' False
     = (Inr 0, example_world) \<and>
   index_file example_lib example_engine
     (snd (index_file example_lib example_engine example_world
             ''/home/atlas/clawd/MEMORY.md'' False))
     ''/home/atlas/clawd/MEMORY.md'' False
     = (Inr 0, example_world)"
proof -
  have 1: "fs example_world ''/home/atlas/clawd/MEMORY.md'' = Some ''# Notes''"
    by (simp add: example_world_def)
  have 2: "load_index_state example_lib example_world = Inr example_state"
    by (simp add: load_index_state_def example_world_def example_lib_def)
  have 3: "files example_state ''/home/atlas/clawd/MEMORY.md''
     = Some (md5_hexdigest example_lib ''# Notes'')"
    by (simp add: example_state_def example_lib_def)
  from index_file_unchanged_is_noop[OF 1 2 3, of example_engine] 1 2 3
  show ?thesis by blast
qed



end
